theory Spec2Isabelle
  imports Complex_Main "HOL-Library.Char_ord" "HOL-Library.List_Lexorder"
begin

section \<open>The country catalogue\<close>

text \<open>
  \<^verbatim>\<open>PAISES\<close> (app.py, lines 19-32) maps twelve three-letter keys to a display name
  and a two-letter code. The country selector offers exactly these keys, so a selected
  country is a value of the enumeration below and both lookups are total. Python strings
  are modelled as byte strings in UTF-8: the accented letters of three names are their
  two-byte encodings.
\<close>

datatype pais = USA | MEX | BRA | ESP | ARG | COL | CHL | PER | DEU | FRA | GBR | CHN

fun nombre :: "pais \<Rightarrow> string" where
  "nombre USA = ''Estados Unidos''"
| "nombre MEX = ''M'' @ [CHR 0xC3, CHR 0xA9] @ ''xico''"
| "nombre BRA = ''Brasil''"
| "nombre ESP = ''Espa'' @ [CHR 0xC3, CHR 0xB1] @ ''a''"
| "nombre ARG = ''Argentina''"
| "nombre COL = ''Colombia''"
| "nombre CHL = ''Chile''"
| "nombre PER = ''Per'' @ [CHR 0xC3, CHR 0xBA]"
| "nombre DEU = ''Alemania''"
| "nombre FRA = ''Francia''"
| "nombre GBR = ''Reino Unido''"
| "nombre CHN = ''China''"

fun iso2 :: "pais \<Rightarrow> string" where
  "iso2 USA = ''US''"
| "iso2 MEX = ''MX''"
| "iso2 BRA = ''BR''"
| "iso2 ESP = ''ES''"
| "iso2 ARG = ''AR''"
| "iso2 COL = ''CO''"
| "iso2 CHL = ''CL''"
| "iso2 PER = ''PE''"
| "iso2 DEU = ''DE''"
| "iso2 FRA = ''FR''"
| "iso2 GBR = ''GB''"
| "iso2 CHN = ''CN''"

section \<open>Strings and numbers as Python reads and writes them\<close>

text \<open>\<^verbatim>\<open>str(n)\<close> for an integer, as the f-strings of the request URL and of the
  trade-balance title use it.\<close>

definition digit_char :: "nat \<Rightarrow> char" where
  "digit_char d = ''0123456789'' ! (d mod 10)"

fun str_nat :: "nat \<Rightarrow> string" where
  "str_nat n = (if n < 10 then [digit_char n] else str_nat (n div 10) @ [digit_char n])"

declare str_nat.simps [simp del]

definition str_int :: "int \<Rightarrow> string" where
  "str_int i = (if i < 0 then CHR ''-'' # str_nat (nat (- i)) else str_nat (nat i))"

definition is_space :: "char \<Rightarrow> bool" where
  "is_space c = (c \<in> set [CHR '' '', CHR 0x09, CHR 0x0A, CHR 0x0B, CHR 0x0C, CHR 0x0D])"

definition is_digit :: "char \<Rightarrow> bool" where
  "is_digit c = (c \<in> set ''0123456789'')"

definition digit_val :: "char \<Rightarrow> nat" where
  "digit_val c = of_char c - 48"

definition strip :: "string \<Rightarrow> string" where
  "strip s = rev (dropWhile is_space (rev (dropWhile is_space s)))"

text \<open>
  \<^verbatim>\<open>int(s)\<close> on a string: surrounding white space is ignored, a sign may lead, and
  single underscores may separate digits. \<open>None\<close> is Python's \<^verbatim>\<open>ValueError\<close>.
\<close>

fun digits_tail :: "nat \<Rightarrow> string \<Rightarrow> nat option" where
  "digits_tail acc [] = Some acc"
| "digits_tail acc [c] = (if is_digit c then Some (10 * acc + digit_val c) else None)"
| "digits_tail acc (c # d # cs) =
     (if is_digit c then digits_tail (10 * acc + digit_val c) (d # cs)
      else if c = CHR ''_'' \<and> is_digit d then digits_tail (10 * acc + digit_val d) cs
      else None)"

fun digits :: "string \<Rightarrow> nat option" where
  "digits [] = None"
| "digits (c # cs) = (if is_digit c then digits_tail (digit_val c) cs else None)"

definition py_int :: "string \<Rightarrow> int option" where
  "py_int s =
     (case strip s of
        [] \<Rightarrow> None
      | c # cs \<Rightarrow>
          if c = CHR ''-'' then map_option (\<lambda>n. - int n) (digits cs)
          else if c = CHR ''+'' then map_option int (digits cs)
          else map_option int (digits (c # cs)))"

text \<open>
  The numeric reading of a string by \<^verbatim>\<open>pd.to_numeric\<close>: white space around, a sign,
  decimal digits with an optional fraction, and an optional decimal exponent. A value is
  kept as the exact rational the numeral denotes; rounding to binary floating point, and
  the words for infinities that pandas also reads, are not part of this model.
  \<open>None\<close> stands for NaN.
\<close>

fun plain_digits :: "nat \<Rightarrow> string \<Rightarrow> nat option" where
  "plain_digits acc [] = Some acc"
| "plain_digits acc (c # cs) =
     (if is_digit c then plain_digits (10 * acc + digit_val c) cs else None)"

definition all_digits :: "string \<Rightarrow> nat option" where
  "all_digits s = (if s = [] then None else plain_digits 0 s)"

definition exponent :: "string \<Rightarrow> int option" where
  "exponent s =
     (case s of
        [] \<Rightarrow> None
      | c # cs \<Rightarrow>
          if c = CHR ''-'' then map_option (\<lambda>n. - int n) (all_digits cs)
          else if c = CHR ''+'' then map_option int (all_digits cs)
          else map_option int (all_digits s))"

definition pow10 :: "int \<Rightarrow> rat" where
  "pow10 e = (if e < 0 then 1 / 10 ^ nat (- e) else 10 ^ nat e)"

definition mantissa :: "string \<Rightarrow> rat option" where
  "mantissa s =
     (let ip = takeWhile is_digit s; rest = dropWhile is_digit s in
      case rest of
        [] \<Rightarrow> map_option of_nat (all_digits ip)
      | c # fp \<Rightarrow>
          if c \<noteq> CHR ''.'' \<or> (ip = [] \<and> fp = []) then None
          else (case plain_digits 0 (ip @ fp) of
                  None \<Rightarrow> None
                | Some n \<Rightarrow> Some (of_nat n * pow10 (- int (length fp)))))"

definition unsigned_decimal :: "string \<Rightarrow> rat option" where
  "unsigned_decimal s =
     (let m = takeWhile (\<lambda>c. c \<noteq> CHR ''e'' \<and> c \<noteq> CHR ''E'') s;
          r = dropWhile (\<lambda>c. c \<noteq> CHR ''e'' \<and> c \<noteq> CHR ''E'') s in
      case r of
        [] \<Rightarrow> mantissa m
      | _ # ex \<Rightarrow>
          (case (mantissa m, exponent ex) of
             (Some q, Some e) \<Rightarrow> Some (q * pow10 e)
           | _ \<Rightarrow> None))"

definition str_to_numeric :: "string \<Rightarrow> rat option" where
  "str_to_numeric s =
     (case strip s of
        [] \<Rightarrow> None
      | c # cs \<Rightarrow>
          if c = CHR ''-'' then map_option uminus (unsigned_decimal cs)
          else if c = CHR ''+'' then unsigned_decimal cs
          else unsigned_decimal (c # cs))"

section \<open>The upstream response\<close>

text \<open>
  What \<^verbatim>\<open>requests.get\<close> hands to the code: either the request raises (no response),
  or there is a response with a status code and a body. A body is JSON or not. The JSON
  document is seen along the path the code follows,
  \<^verbatim>\<open>data["values"][indicador_codigo][pais_iso2]\<close>: each of the three levels is an
  object (a Python dict, here an association list in insertion order with distinct keys)
  or some other JSON value, and what stands at the end of the path is a mapping from year
  keys to cells, a cell being null, a number or a string, as the upstream interface gives
  them. Other shapes at the end of the path are outside this model.
\<close>

datatype celda = Null | Number rat | Text string

type_synonym serie = "(string \<times> celda) list"

datatype 'a json = Object "(string \<times> 'a) list" | Other_value

type_synonym document = "serie json json json"

datatype body = Not_json | Json document

datatype response = No_response string | Response nat body

datatype exn =
    RequestException string
  | HTTPError nat
  | JSONDecodeError
  | KeyError string
  | TypeError
  | ValueError
  | OverflowError

text \<open>\<^verbatim>\<open>response.raise_for_status()\<close> raises for the client and server error codes.\<close>

definition raise_for_status :: "nat \<Rightarrow> exn + unit" where
  "raise_for_status status =
     (if 400 \<le> status \<and> status < 600 then Inl (HTTPError status) else Inr ())"

definition response_json :: "body \<Rightarrow> exn + document" where
  "response_json b = (case b of Not_json \<Rightarrow> Inl JSONDecodeError | Json d \<Rightarrow> Inr d)"

text \<open>\<^verbatim>\<open>x[key]\<close> with a string key: a dict without the key raises \<^verbatim>\<open>KeyError\<close>, any
  other JSON value raises \<^verbatim>\<open>TypeError\<close>.\<close>

fun subscript :: "'a json \<Rightarrow> string \<Rightarrow> exn + 'a" where
  "subscript (Object kvs) k = (case map_of kvs k of None \<Rightarrow> Inl (KeyError k) | Some v \<Rightarrow> Inr v)"
| "subscript Other_value k = Inl TypeError"

definition and_then :: "exn + 'a \<Rightarrow> ('a \<Rightarrow> exn + 'b) \<Rightarrow> exn + 'b" where
  "and_then m f = (case m of Inl e \<Rightarrow> Inl e | Inr x \<Rightarrow> f x)"

section \<open>The data frame of one series\<close>

text \<open>
  A frame is its list of rows. Lines 65-68 build it: one row per key of the mapping, in
  the mapping's order; the index is cast to integers (\<^verbatim>\<open>astype(int)\<close>, which raises at
  the first key that is no integer or does not fit 64 bits); the column \<^verbatim>\<open>Valor\<close> is
  coerced to numbers, a cell that is no number becoming NaN; \<^verbatim>\<open>dropna\<close> then removes
  the rows with NaN.
\<close>

type_synonym fila = "int \<times> rat"

type_synonym dataframe = "fila list"

definition int64_of_str :: "string \<Rightarrow> exn + int" where
  "int64_of_str k =
     (case py_int k of
        None \<Rightarrow> Inl ValueError
      | Some i \<Rightarrow> if - (2 ^ 63) \<le> i \<and> i < 2 ^ 63 then Inr i else Inl OverflowError)"

fun astype_int :: "(string \<times> 'a) list \<Rightarrow> exn + (int \<times> 'a) list" where
  "astype_int [] = Inr []"
| "astype_int ((k, v) # rows) =
     and_then (int64_of_str k) (\<lambda>y.
     and_then (astype_int rows) (\<lambda>rest. Inr ((y, v) # rest)))"

fun to_numeric :: "celda \<Rightarrow> rat option" where
  "to_numeric Null = None"
| "to_numeric (Number q) = Some q"
| "to_numeric (Text s) = str_to_numeric s"

fun dropna :: "(int \<times> rat option) list \<Rightarrow> dataframe" where
  "dropna [] = []"
| "dropna ((y, None) # rows) = dropna rows"
| "dropna ((y, Some v) # rows) = (y, v) # dropna rows"

section \<open>What the page shows\<close>

text \<open>
  The presentation calls, in the order the script makes them. A row of an aggregated panel
  is (year, \<^verbatim>\<open>Valor\<close>, country name); a bar of the trade-balance chart is
  (country name, \<^verbatim>\<open>Tipo\<close>, \<^verbatim>\<open>Valor\<close>). \<open>St_error e\<close> is the notice
  \<^verbatim>\<open>st.error(f"Error al obtener datos: {str(e)}")\<close>. Headers, the page title and the
  footer carry no data and are left out.
\<close>

type_synonym fila_pais = "int \<times> rat \<times> string"

datatype figure =
    Line_chart string string "fila_pais list"
  | Bar_chart string string "fila_pais list"
  | Grouped_bars string "(string \<times> string \<times> rat) list"

type_synonym pivot_table = "int list \<times> string list \<times> ((int \<times> string) \<times> rat) list"

datatype event =
    St_error exn
  | St_warning string
  | St_plotly_chart figure
  | St_dataframe pivot_table

section \<open>The fetch function\<close>

type_synonym key = "string \<times> string \<times> int \<times> int"

record entry =
  result_df :: dataframe
  replay :: "event list"
  stored_at :: rat

text \<open>
  The state the script runs in: the cache of the decorator, a clock in seconds, the URLs
  requested so far, the pauses taken, what the page shows, and the calls made to the
  decorated function (kept to count them).
\<close>

record state =
  cache :: "(key \<times> entry) list"
  clock :: rat
  network :: "string list"
  sleeps :: "rat list"
  screen :: "event list"
  calls :: "key list"

definition url_fmi :: "string \<Rightarrow> string \<Rightarrow> int \<Rightarrow> int \<Rightarrow> string" where
  "url_fmi indicador_codigo pais_iso2 start_year end_year =
     ''https://www.imf.org/external/datamapper/api/v1/'' @ indicador_codigo @ ''/'' @ pais_iso2
       @ ''?periods='' @ str_int start_year @ ''-'' @ str_int end_year"

text \<open>Line 63, \<^verbatim>\<open>data["values"][indicador_codigo][pais_iso2]\<close>.\<close>

definition locate :: "document \<Rightarrow> string \<Rightarrow> string \<Rightarrow> exn + serie" where
  "locate data indicador_codigo pais_iso2 =
     and_then (subscript data ''values'') (\<lambda>by_indicator.
     and_then (subscript by_indicator indicador_codigo) (\<lambda>by_country.
     subscript by_country pais_iso2))"

text \<open>Lines 59-68, from the response to the frame with its coerced column: every
  exception of the \<^verbatim>\<open>try\<close> block is a left value.\<close>

definition fetch_and_parse :: "response \<Rightarrow> string \<Rightarrow> string \<Rightarrow> exn + (int \<times> rat option) list" where
  "fetch_and_parse r indicador_codigo pais_iso2 =
     (case r of
        No_response msg \<Rightarrow> Inl (RequestException msg)
      | Response status b \<Rightarrow>
          and_then (raise_for_status status) (\<lambda>_.
          and_then (response_json b) (\<lambda>data.
          and_then (locate data indicador_codigo pais_iso2) (\<lambda>series.
          and_then (astype_int series) (\<lambda>df.
          Inr (map (\<lambda>(y, c). (y, to_numeric c)) df))))))"

text \<open>
  The body of \<^verbatim>\<open>obtener_datos_fmi\<close> (lines 57-75), without its decorator. The request
  is logged when it is issued. When the block succeeds the function sleeps half a second
  and returns the frame without its NaN rows; any exception is reported with
  \<^verbatim>\<open>st.error\<close> and the empty frame is returned. The time the request itself takes is
  not modelled.
\<close>

definition obtener_datos_fmi_body ::
  "(string \<Rightarrow> response) \<Rightarrow> string \<Rightarrow> string \<Rightarrow> int \<Rightarrow> int \<Rightarrow> state \<Rightarrow> dataframe \<times> state" where
  "obtener_datos_fmi_body get pais_iso2 indicador_codigo start_year end_year st =
     (let url = url_fmi indicador_codigo pais_iso2 start_year end_year;
          st1 = st\<lparr>network := network st @ [url]\<rparr>
      in case fetch_and_parse (get url) indicador_codigo pais_iso2 of
           Inr df \<Rightarrow> (dropna df, st1\<lparr>clock := clock st1 + 1 / 2, sleeps := sleeps st1 @ [1 / 2]\<rparr>)
         | Inl e \<Rightarrow> ([], st1\<lparr>screen := screen st1 @ [St_error e]\<rparr>))"

text \<open>
  Modelled from the spec: the decorator \<^verbatim>\<open>st.cache_data(ttl=3600)\<close> of line 55 is
  Streamlit's code, not in the repository. As the spec describes it, the cache is a mapping
  from the full argument tuple to the returned value and its insertion time; a call whose
  entry is younger than the time-to-live returns the stored value and does not run the
  body; any other call runs the body and stores what it returns. The decorator cannot
  tell a frame of the error branch from any other: it stores whatever the body returns.
  Streamlit also shows again, on a hit, the notices the body displayed when the entry was
  made; the entry keeps them.
\<close>

definition ttl :: rat where
  "ttl = 3600"

definition lookup_live :: "state \<Rightarrow> key \<Rightarrow> entry option" where
  "lookup_live st k =
     (case map_of (cache st) k of
        None \<Rightarrow> None
      | Some e \<Rightarrow> if clock st < stored_at e + ttl then Some e else None)"

definition obtener_datos_fmi ::
  "(string \<Rightarrow> response) \<Rightarrow> string \<Rightarrow> string \<Rightarrow> int \<Rightarrow> int \<Rightarrow> state \<Rightarrow> dataframe \<times> state" where
  "obtener_datos_fmi get pais_iso2 indicador_codigo start_year end_year st =
     (let k = (pais_iso2, indicador_codigo, start_year, end_year);
          st0 = st\<lparr>calls := calls st @ [k]\<rparr>
      in case lookup_live st0 k of
           Some e \<Rightarrow> (result_df e, st0\<lparr>screen := screen st0 @ replay e\<rparr>)
         | None \<Rightarrow>
             (let (df, st1) = obtener_datos_fmi_body get pais_iso2 indicador_codigo start_year end_year st0;
                  e = \<lparr>result_df = df, replay = drop (length (screen st0)) (screen st1),
                       stored_at = clock st1\<rparr>
              in (df, st1\<lparr>cache := (k, e) # cache st1\<rparr>)))"

text \<open>Time passing between two calls of the script.\<close>

definition elapse :: "rat \<Rightarrow> state \<Rightarrow> state" where
  "elapse d st = st\<lparr>clock := clock st + d\<rparr>"

definition fresh :: state where
  "fresh = \<lparr>cache = [], clock = 0, network = [], sleeps = [], screen = [], calls = []\<rparr>"

section \<open>The panels\<close>

text \<open>
  \<^verbatim>\<open>df.pivot(index, columns, values)\<close> raises \<^verbatim>\<open>ValueError\<close> when two rows share a
  year and a country; otherwise the table has the years and the countries in order.
\<close>

definition pivot :: "fila_pais list \<Rightarrow> exn + pivot_table" where
  "pivot df =
     (let ks = map (\<lambda>(y, v, p). (y, p)) df in
      if distinct ks
      then Inr (sort (remdups (map fst ks)), sort (remdups (map snd ks)),
                map (\<lambda>(y, v, p). ((y, p), v)) df)
      else Inl ValueError)"

text \<open>
  \<^verbatim>\<open>crear_grafico_comparativo\<close> (lines 77-99). An exception of \<^verbatim>\<open>pivot\<close> is not
  caught anywhere: it ends the script, and the result is then the exception alone.
\<close>

definition crear_grafico_comparativo ::
  "fila_pais list \<Rightarrow> string \<Rightarrow> string \<Rightarrow> string \<Rightarrow> bool \<Rightarrow> state \<Rightarrow> exn + state" where
  "crear_grafico_comparativo df titulo tipo unidad show_table st =
     (if df = [] then Inr (st\<lparr>screen := screen st @ [St_warning (''No hay datos disponibles para '' @ titulo)]\<rparr>)
      else
        (let fig = (if tipo = ''line'' then Line_chart (titulo @ '' ('' @ unidad @ '')'') unidad df
                    else Bar_chart (titulo @ '' ('' @ unidad @ '')'') unidad df);
             st1 = st\<lparr>screen := screen st @ [St_plotly_chart fig]\<rparr>
         in if show_table
            then and_then (pivot df) (\<lambda>t. Inr (st1\<lparr>screen := screen st1 @ [St_dataframe t]\<rparr>))
            else Inr st1))"

text \<open>
  The loop every indicator block repeats (lines 131-136 for the first): one call of the
  fetch function per selected country, in order; a frame that is not empty gets the
  column with the country's display name and is appended to the list.
\<close>

definition tag :: "pais \<Rightarrow> dataframe \<Rightarrow> fila_pais list" where
  "tag p df = map (\<lambda>(y, v). (y, v, nombre p)) df"

fun collect ::
  "(string \<Rightarrow> response) \<Rightarrow> string \<Rightarrow> int \<Rightarrow> int \<Rightarrow> pais list \<Rightarrow> fila_pais list list \<Rightarrow> state
     \<Rightarrow> fila_pais list list \<times> state" where
  "collect get codigo inicio fin [] datos st = (datos, st)"
| "collect get codigo inicio fin (p # ps) datos st =
     (let (df, st1) = obtener_datos_fmi get (iso2 p) codigo inicio fin st in
      if df \<noteq> [] then collect get codigo inicio fin ps (datos @ [tag p df]) st1
      else collect get codigo inicio fin ps datos st1)"

text \<open>One indicator block: the loop, then the chart when the list is not empty
  (lines 138-139).\<close>

definition panel ::
  "(string \<Rightarrow> response) \<Rightarrow> string \<Rightarrow> string \<Rightarrow> string \<Rightarrow> string \<Rightarrow> pais list \<Rightarrow> int \<Rightarrow> int
     \<Rightarrow> state \<Rightarrow> exn + state" where
  "panel get codigo titulo tipo unidad paises inicio fin st =
     (let (datos, st1) = collect get codigo inicio fin paises [] st in
      if datos \<noteq> [] then crear_grafico_comparativo (concat datos) titulo tipo unidad True st1
      else Inr st1)"

text \<open>
  The trade-balance block (lines 167-187): two calls per country, both for the single
  year at the end of the range; a country is kept when both frames have a row, with the
  first value of each; \<^verbatim>\<open>melt\<close> then lists the exports of every country, then the
  imports.
\<close>

fun collect_balanza ::
  "(string \<Rightarrow> response) \<Rightarrow> int \<Rightarrow> pais list \<Rightarrow> (string \<times> rat \<times> rat) list \<Rightarrow> state
     \<Rightarrow> (string \<times> rat \<times> rat) list \<times> state" where
  "collect_balanza get anio [] datos st = (datos, st)"
| "collect_balanza get anio (p # ps) datos st =
     (let (df_export, st1) = obtener_datos_fmi get (iso2 p) ''TXG_FOB_USD'' anio anio st;
          (df_import, st2) = obtener_datos_fmi get (iso2 p) ''TMG_CIF_USD'' anio anio st1
      in if df_export \<noteq> [] \<and> df_import \<noteq> []
         then collect_balanza get anio ps
                (datos @ [(nombre p, snd (hd df_export), snd (hd df_import))]) st2
         else collect_balanza get anio ps datos st2)"

definition melt :: "(string \<times> rat \<times> rat) list \<Rightarrow> (string \<times> string \<times> rat) list" where
  "melt datos =
     map (\<lambda>(p, e, i). (p, ''Exportaciones'', e)) datos
       @ map (\<lambda>(p, e, i). (p, ''Importaciones'', i)) datos"

definition balanza_comercial ::
  "(string \<Rightarrow> response) \<Rightarrow> pais list \<Rightarrow> int \<Rightarrow> state \<Rightarrow> state" where
  "balanza_comercial get paises fin st =
     (if paises \<noteq> [] then
        (let (datos, st1) = collect_balanza get fin paises [] st in
         if datos \<noteq> []
         then st1\<lparr>screen := screen st1 @
                [St_plotly_chart (Grouped_bars (''Balanza Comercial ('' @ str_int fin @ '')'') (melt datos))]\<rparr>
         else st1)
      else st)"

text \<open>The indicator blocks of the script, in its order: code, title, chart type and
  unit of blocks 1-3 and 5-12. Block 4 is the trade balance.\<close>

definition bloques_1_3 :: "(string \<times> string \<times> string \<times> string) list" where
  "bloques_1_3 =
     [(''NGDP_R'', ''Evoluci'' @ [CHR 0xC3, CHR 0xB3] @ ''n del PIB'', ''bar'', ''USD''),
      (''NGDPDPC'', ''PIB per c'' @ [CHR 0xC3, CHR 0xA1] @ ''pita'', ''bar'', ''USD''),
      (''PCPI'', ''Tasa de Inflaci'' @ [CHR 0xC3, CHR 0xB3] @ ''n'', ''line'', ''%'')]"

definition bloques_5_12 :: "(string \<times> string \<times> string \<times> string) list" where
  "bloques_5_12 =
     [(''BCA'', ''Cuenta Corriente'', ''line'', ''% PIB''),
      (''RAXG'', ''Reservas Internacionales'', ''bar'', ''USD''),
      (''FPOLM_PA'', ''Tasas de Inter'' @ [CHR 0xC3, CHR 0xA9] @ ''s'', ''line'', ''%''),
      (''GGXWDG'', ''Deuda P'' @ [CHR 0xC3, CHR 0xBA] @ ''blica'', ''bar'', ''% PIB''),
      (''GGXONLB'', ''D'' @ [CHR 0xC3, CHR 0xA9] @ ''ficit Fiscal'', ''bar'', ''% PIB''),
      (''GGX'', ''Gasto P'' @ [CHR 0xC3, CHR 0xBA] @ ''blico'', ''bar'', ''% PIB''),
      (''LUR'', ''Tasa de Desempleo'', ''bar'', ''%''),
      (''FDI'', ''Inversi'' @ [CHR 0xC3, CHR 0xB3] @ ''n Extranjera Directa'', ''bar'', ''USD'')]"

fun bloques ::
  "(string \<Rightarrow> response) \<Rightarrow> (string \<times> string \<times> string \<times> string) list \<Rightarrow> pais list \<Rightarrow> int \<Rightarrow> int
     \<Rightarrow> state \<Rightarrow> exn + state" where
  "bloques get [] paises inicio fin st = Inr st"
| "bloques get ((codigo, titulo, tipo, unidad) # bs) paises inicio fin st =
     and_then (panel get codigo titulo tipo unidad paises inicio fin st)
       (\<lambda>st1. bloques get bs paises inicio fin st1)"

definition pagina :: "(string \<Rightarrow> response) \<Rightarrow> pais list \<Rightarrow> int \<Rightarrow> int \<Rightarrow> state \<Rightarrow> exn + state" where
  "pagina get paises inicio fin st =
     and_then (bloques get bloques_1_3 paises inicio fin st)
       (\<lambda>st1. bloques get bloques_5_12 paises inicio fin (balanza_comercial get paises fin st1))"

section \<open>Upstream answers used in the examples\<close>

text \<open>The document of the spec's scenario:
  \<^verbatim>\<open>{"values":{"NGDP_R":{"US":{"2020":"100","2021":"105.5","2022":null}}}}\<close>.\<close>

definition mock_document :: document where
  "mock_document =
     Object [(''values'', Object [(''NGDP_R'', Object [(''US'',
       [(''2020'', Text ''100''), (''2021'', Text ''105.5''), (''2022'', Null)])])])]"

definition mock_get :: "string \<Rightarrow> response" where
  "mock_get u = Response 200 (Json mock_document)"

text \<open>A success whose second year key is no integer.\<close>

definition bad_year_get :: "string \<Rightarrow> response" where
  "bad_year_get u =
     Response 200 (Json (Object [(''values'', Object [(''NGDP_R'', Object [(''US'',
       [(''2020'', Text ''100''), (''2021.0'', Text ''105.5'')])])])]))"

text \<open>An upstream that ignores the requested period: years out of order, one outside
  the range, and two keys for the same year.\<close>

definition unfiltered_get :: "string \<Rightarrow> response" where
  "unfiltered_get u =
     Response 200 (Json (Object [(''values'', Object [(''NGDP_R'', Object [(''US'',
       [(''2021'', Number 2), (''2019'', Number 1), (''02021'', Number 3)])])])]))"

definition server_error_get :: "string \<Rightarrow> response" where
  "server_error_get u = Response 500 Not_json"

text \<open>Status 300 (Multiple Choices) with the scenario's document as its body.\<close>

definition multiple_choices_get :: "string \<Rightarrow> response" where
  "multiple_choices_get u = Response 300 (Json mock_document)"

text \<open>The scenario of the aggregation: the request for the United States is answered with
  the scenario's document, every other request with status 500.\<close>

definition mexico_fails_get :: "string \<Rightarrow> response" where
  "mexico_fails_get u =
     (if u = url_fmi ''NGDP_R'' ''US'' 2020 2022 then Response 200 (Json mock_document)
      else Response 500 Not_json)"

text \<open>A success that holds no value at all.\<close>

definition no_data_get :: "string \<Rightarrow> response" where
  "no_data_get u =
     Response 200 (Json (Object [(''values'', Object [(''NGDP_R'', Object [(''US'',
       [(''2020'', Null), (''2021'', Null)])])])]))"

text \<open>The scenario of the trade balance: exports 50 and imports 70 for the United States
  in 2023.\<close>

definition trade_get :: "string \<Rightarrow> response" where
  "trade_get u =
     (if u = url_fmi ''TXG_FOB_USD'' ''US'' 2023 2023
      then Response 200 (Json (Object [(''values'', Object [(''TXG_FOB_USD'', Object [(''US'',
             [(''2023'', Number 50)])])])]))
      else if u = url_fmi ''TMG_CIF_USD'' ''US'' 2023 2023
      then Response 200 (Json (Object [(''values'', Object [(''TMG_CIF_USD'', Object [(''US'',
             [(''2023'', Number 70)])])])]))
      else Response 404 Not_json)"

text \<open>The \<^verbatim>\<open>Tipo\<close> labels of a grouped bar chart, in the order of its bars.\<close>

fun tipo_labels :: "event \<Rightarrow> string list" where
  "tipo_labels (St_plotly_chart (Grouped_bars t bars)) = map (\<lambda>(p, tipo, v). tipo) bars"
| "tipo_labels _ = []"

text \<open>Two states of the cache examples: after a first call, and after a call with
  another end year.\<close>

definition after_first :: state where
  "after_first = snd (obtener_datos_fmi mock_get ''US'' ''NGDP_R'' 2020 2022 fresh)"

definition after_other :: state where
  "after_other = snd (obtener_datos_fmi mock_get ''US'' ''NGDP_R'' 2020 2023 after_first)"

section \<open>Basic facts\<close>

lemma and_then_Inl [simp]: "and_then (Inl e) f = Inl e"
  by (simp add: and_then_def)

lemma and_then_Inr [simp]: "and_then (Inr x) f = f x"
  by (simp add: and_then_def)

lemma lookup_live_calls [simp]: "lookup_live (st\<lparr>calls := c\<rparr>) k = lookup_live st k"
  by (simp add: lookup_live_def split: option.splits)

lemma fresh_miss: "lookup_live fresh k = None"
  by (simp add: lookup_live_def fresh_def)

text \<open>The three ways a call of the decorated function goes.\<close>

lemma obtener_hit:
  "lookup_live st (p, i, y0, y1) = Some e \<Longrightarrow>
   obtener_datos_fmi get p i y0 y1 st =
     (result_df e, st\<lparr>calls := calls st @ [(p, i, y0, y1)], screen := screen st @ replay e\<rparr>)"
  by (simp add: obtener_datos_fmi_def Let_def)

lemma obtener_miss_ok:
  "lookup_live st (p, i, y0, y1) = None \<Longrightarrow>
   fetch_and_parse (get (url_fmi i p y0 y1)) i p = Inr df \<Longrightarrow>
   obtener_datos_fmi get p i y0 y1 st =
     (dropna df,
      st\<lparr>calls := calls st @ [(p, i, y0, y1)],
         network := network st @ [url_fmi i p y0 y1],
         clock := clock st + 1 / 2,
         sleeps := sleeps st @ [1 / 2],
         cache := ((p, i, y0, y1),
                   \<lparr>result_df = dropna df, replay = [], stored_at = clock st + 1 / 2\<rparr>) # cache st\<rparr>)"
  by (simp add: obtener_datos_fmi_def obtener_datos_fmi_body_def Let_def)

lemma obtener_miss_err:
  "lookup_live st (p, i, y0, y1) = None \<Longrightarrow>
   fetch_and_parse (get (url_fmi i p y0 y1)) i p = Inl e \<Longrightarrow>
   obtener_datos_fmi get p i y0 y1 st =
     ([],
      st\<lparr>calls := calls st @ [(p, i, y0, y1)],
         network := network st @ [url_fmi i p y0 y1],
         screen := screen st @ [St_error e],
         cache := ((p, i, y0, y1),
                   \<lparr>result_df = [], replay = [St_error e], stored_at = clock st\<rparr>) # cache st\<rparr>)"
  by (simp add: obtener_datos_fmi_def obtener_datos_fmi_body_def Let_def)

text \<open>The index cast succeeds exactly when every key reads as a 64-bit integer.\<close>

lemma astype_int_Inr:
  "list_all2 (\<lambda>(k, c) y. int64_of_str k = Inr y) s ys \<Longrightarrow>
   astype_int s = Inr (zip ys (map snd s))"
  by (induction s ys rule: list_all2_induct) auto

lemma astype_int_Inl:
  "(k, c) \<in> set s \<Longrightarrow> isl (int64_of_str k) \<Longrightarrow> isl (astype_int s)"
  by (induction s) (auto simp: and_then_def split: sum.splits)

lemma astype_int_exn:
  "astype_int s = Inl e \<Longrightarrow> e = ValueError \<or> e = OverflowError"
  by (induction s arbitrary: e)
    (auto simp: and_then_def int64_of_str_def split: sum.splits option.splits if_splits)

lemma fetch_and_parse_ok:
  "r = Response status (Json data) \<Longrightarrow> \<not> (400 \<le> status \<and> status < 600) \<Longrightarrow>
   locate data i p = Inr series \<Longrightarrow>
   fetch_and_parse r i p =
     and_then (astype_int series) (\<lambda>df. Inr (map (\<lambda>(y, c). (y, to_numeric c)) df))"
  by (auto simp: fetch_and_parse_def raise_for_status_def response_json_def)

lemma fetch_and_parse_bad_index:
  "r = Response status (Json data) \<Longrightarrow> \<not> (400 \<le> status \<and> status < 600) \<Longrightarrow>
   locate data i p = Inr series \<Longrightarrow> astype_int series = Inl e \<Longrightarrow>
   fetch_and_parse r i p = Inl e"
  by (simp add: fetch_and_parse_ok)

lemma dropna_zip:
  "length ys = length series \<Longrightarrow>
   dropna (map (\<lambda>(y, c). (y, to_numeric c)) (zip ys (map snd series))) =
     concat (map (\<lambda>(y, k, c). case to_numeric c of None \<Rightarrow> [] | Some v \<Rightarrow> [(y, v)])
                 (zip ys series))"
proof (induction ys series rule: list_induct2)
  case Nil
  show ?case by simp
next
  case (Cons y ys kc series)
  then show ?case by (cases kc; cases "to_numeric (snd kc)") auto
qed

lemma mock_parse:
  "fetch_and_parse (mock_get u) ''NGDP_R'' ''US'' =
     Inr [(2020, Some 100), (2021, Some (211 / 2)), (2022, None)]"
  by code_simp

lemma mock_document_path:
  "locate mock_document ''NGDP_R'' ''US'' =
     Inr [(''2020'', Text ''100''), (''2021'', Text ''105.5''), (''2022'', Null)]"
  by (simp add: locate_def mock_document_def)

lemma mock_document_keys:
  "list_all2 (\<lambda>(k, c) y. int64_of_str k = Inr y)
     [(''2020'', Text ''100''), (''2021'', Text ''105.5''), (''2022'', Null)] [2020, 2021, 2022]"
proof -
  have "int64_of_str ''2020'' = Inr 2020" by code_simp
  moreover have "int64_of_str ''2021'' = Inr 2021" by code_simp
  moreover have "int64_of_str ''2022'' = Inr 2022" by code_simp
  ultimately show ?thesis by simp
qed

text \<open>A success, as the fetch function sees it: the rows that are returned, and no notice.\<close>

lemma fetch_success:
  assumes miss: "lookup_live st (p, i, y0, y1) = None"
    and resp: "get (url_fmi i p y0 y1) = Response status (Json data)"
    and ok: "\<not> (400 \<le> status \<and> status < 600)"
    and path: "locate data i p = Inr series"
    and keys: "list_all2 (\<lambda>(k, c) y. int64_of_str k = Inr y) series ys"
  shows "fst (obtener_datos_fmi get p i y0 y1 st) =
           concat (map (\<lambda>(y, k, c). case to_numeric c of None \<Rightarrow> [] | Some v \<Rightarrow> [(y, v)])
                       (zip ys series))"
    and "screen (snd (obtener_datos_fmi get p i y0 y1 st)) = screen st"
proof -
  have len: "length ys = length series"
    using keys by (simp add: list_all2_lengthD)
  have parsed: "fetch_and_parse (get (url_fmi i p y0 y1)) i p =
      Inr (map (\<lambda>(y, c). (y, to_numeric c)) (zip ys (map snd series)))"
    using resp ok path keys by (simp add: fetch_and_parse_ok astype_int_Inr)
  show "fst (obtener_datos_fmi get p i y0 y1 st) =
           concat (map (\<lambda>(y, k, c). case to_numeric c of None \<Rightarrow> [] | Some v \<Rightarrow> [(y, v)])
                       (zip ys series))"
    using obtener_miss_ok [where get = get, OF miss parsed] dropna_zip [OF len] by simp
  show "screen (snd (obtener_datos_fmi get p i y0 y1 st)) = screen st"
    using obtener_miss_ok [where get = get, OF miss parsed] by simp
qed

lemma years_of_concat:
  "map fst (concat (map (\<lambda>(y, k, c). case to_numeric c of None \<Rightarrow> [] | Some v \<Rightarrow> [(y, v)]) zs)) =
   map fst (filter (\<lambda>(y, k, c). to_numeric c \<noteq> None) zs)"
  by (induction zs) (auto split: option.splits)

lemma strictly_increasing_filter:
  assumes "length ys = length series" and "sorted_wrt (<) (ys :: int list)"
  shows "sorted_wrt (<) (map fst (filter Q (zip ys series)))"
proof -
  have "sorted_wrt (<) (map fst (zip ys series))"
    using assms by simp
  then have "sorted_wrt (\<lambda>a b. fst a < fst b) (zip ys series)"
    by (simp add: sorted_wrt_map)
  then have "sorted_wrt (\<lambda>a b. fst a < fst b) (filter Q (zip ys series))"
    by (rule sorted_wrt_filter)
  then show ?thesis
    by (simp add: sorted_wrt_map)
qed

lemma unfiltered_parse:
  "fetch_and_parse (unfiltered_get u) ''NGDP_R'' ''US'' =
     Inr [(2021, Some 2), (2019, Some 1), (2021, Some 3)]"
  by code_simp

lemma fetch_and_parse_failure:
  assumes "(\<exists>msg. r = No_response msg \<and> e = RequestException msg)
     \<or> (\<exists>status b. r = Response status b \<and> 400 \<le> status \<and> status < 600 \<and> e = HTTPError status)
     \<or> (\<exists>status. r = Response status Not_json \<and> \<not> (400 \<le> status \<and> status < 600)
           \<and> e = JSONDecodeError)
     \<or> (\<exists>status data. r = Response status (Json data) \<and> \<not> (400 \<le> status \<and> status < 600)
           \<and> locate data i p = Inl e)"
  shows "fetch_and_parse r i p = Inl e"
  using assms by (auto simp: fetch_and_parse_def raise_for_status_def response_json_def)

lemma multiple_choices_parse:
  "fetch_and_parse (multiple_choices_get u) ''NGDP_R'' ''US'' =
     Inr [(2020, Some 100), (2021, Some (211 / 2)), (2022, None)]"
  by code_simp

text \<open>The cache, the clock and the logs across calls.\<close>

lemma lookup_live_elapse:
  "lookup_live (elapse d st) k =
     (case map_of (cache st) k of
        None \<Rightarrow> None
      | Some e \<Rightarrow> if clock st + d < stored_at e + ttl then Some e else None)"
  by (simp add: lookup_live_def elapse_def split: option.splits)

lemma network_elapse [simp]: "network (elapse d st) = network st"
  by (simp add: elapse_def)

lemma obtener_network:
  "network (snd (obtener_datos_fmi get p i y0 y1 st)) =
     network st @ (if lookup_live st (p, i, y0, y1) = None then [url_fmi i p y0 y1] else [])"
proof (cases "lookup_live st (p, i, y0, y1)")
  case None
  then show ?thesis
    by (cases "fetch_and_parse (get (url_fmi i p y0 y1)) i p")
      (simp_all add: obtener_miss_err obtener_miss_ok)
next
  case (Some e)
  then show ?thesis by (simp add: obtener_hit)
qed

lemma obtener_calls:
  "calls (snd (obtener_datos_fmi get p i y0 y1 st)) = calls st @ [(p, i, y0, y1)]"
proof (cases "lookup_live st (p, i, y0, y1)")
  case None
  then show ?thesis
    by (cases "fetch_and_parse (get (url_fmi i p y0 y1)) i p")
      (simp_all add: obtener_miss_err obtener_miss_ok)
next
  case (Some e)
  then show ?thesis by (simp add: obtener_hit)
qed

text \<open>After a call that ran the body, the entry of its key holds the returned frame and
  the time at which the call ended.\<close>

lemma obtener_miss_entry:
  assumes "lookup_live st (p, i, y0, y1) = None"
  shows "\<exists>r. cache (snd (obtener_datos_fmi get p i y0 y1 st)) =
           ((p, i, y0, y1),
            \<lparr>result_df = fst (obtener_datos_fmi get p i y0 y1 st), replay = r,
              stored_at = clock (snd (obtener_datos_fmi get p i y0 y1 st))\<rparr>) # cache st"
  using assms
  by (cases "fetch_and_parse (get (url_fmi i p y0 y1)) i p")
    (simp_all add: obtener_miss_err obtener_miss_ok)

lemma obtener_clock_mono:
  "clock st \<le> clock (snd (obtener_datos_fmi get p i y0 y1 st))"
proof (cases "lookup_live st (p, i, y0, y1)")
  case None
  then show ?thesis
    by (cases "fetch_and_parse (get (url_fmi i p y0 y1)) i p")
      (simp_all add: obtener_miss_err obtener_miss_ok)
next
  case (Some e)
  then show ?thesis by (simp add: obtener_hit)
qed

text \<open>An entry that has expired stays expired as the clock moves on.\<close>

lemma lookup_live_later:
  assumes "lookup_live st k = None" and "map_of (cache st') k = map_of (cache st) k"
    and "clock st \<le> clock st'"
  shows "lookup_live st' k = None"
  using assms by (auto simp: lookup_live_def split: option.splits if_splits)

lemma map_of_other_key: "k' \<noteq> k \<Longrightarrow> map_of ((k, e) # c) k' = map_of c k'"
  by simp

lemma map_of_under_other_key: "k' \<noteq> k \<Longrightarrow> map_of ((k', e') # (k, e) # c) k = Some e"
  by auto

lemma after_first_eq:
  "after_first =
     fresh\<lparr>calls := [(''US'', ''NGDP_R'', 2020, 2022)],
            network := [url_fmi ''NGDP_R'' ''US'' 2020 2022],
            clock := 1 / 2,
            sleeps := [1 / 2],
            cache := [((''US'', ''NGDP_R'', 2020, 2022),
                       \<lparr>result_df = [(2020, 100), (2021, 211 / 2)], replay = [],
                          stored_at = 1 / 2\<rparr>)]\<rparr>"
  unfolding after_first_def
  using obtener_miss_ok [where get = mock_get, OF fresh_miss mock_parse]
  by (simp add: fresh_def)

lemma after_first_miss: "lookup_live after_first (''US'', ''NGDP_R'', 2020, 2023) = None"
  by (simp add: after_first_eq lookup_live_def fresh_def)

lemma after_other_clock: "clock after_other = 1"
  unfolding after_other_def
  using obtener_miss_ok [where get = mock_get, OF after_first_miss mock_parse]
  by (simp add: after_first_eq fresh_def)

section \<open>Values that are no numbers\<close>

text \<open>
  Claim C3. When the call runs the body and the response is a success whose year keys all
  read as integers, the returned frame holds, in the response's order, one row for every
  year whose cell coerces to a number and no row for a year whose cell does not (null, or
  a string that is no numeral; a year that is absent has no cell at all), and nothing is
  added to the page. For the scenario of the spec,
  \<^verbatim>\<open>fetch("US", "NGDP_R", 2020, 2022)\<close> on the mocked document, the frame is exactly
  (2020, 100.0), (2021, 105.5) and no notice is shown.
\<close>

theorem coercion_failures_are_dropped:
  assumes miss: "lookup_live st (p, i, y0, y1) = None"
    and resp: "get (url_fmi i p y0 y1) = Response status (Json data)"
    and ok: "\<not> (400 \<le> status \<and> status < 600)"
    and path: "locate data i p = Inr series"
    and keys: "list_all2 (\<lambda>(k, c) y. int64_of_str k = Inr y) series ys"
  shows "fst (obtener_datos_fmi get p i y0 y1 st) =
           concat (map (\<lambda>(y, k, c). case to_numeric c of None \<Rightarrow> [] | Some v \<Rightarrow> [(y, v)])
                       (zip ys series))
       \<and> screen (snd (obtener_datos_fmi get p i y0 y1 st)) = screen st
       \<and> fst (obtener_datos_fmi mock_get ''US'' ''NGDP_R'' 2020 2022 fresh) =
           [(2020, 100), (2021, 211 / 2)]
       \<and> screen (snd (obtener_datos_fmi mock_get ''US'' ''NGDP_R'' 2020 2022 fresh)) = []"
proof -
  have scenario: "fst (obtener_datos_fmi mock_get ''US'' ''NGDP_R'' 2020 2022 fresh) =
           [(2020, 100), (2021, 211 / 2)]
       \<and> screen (snd (obtener_datos_fmi mock_get ''US'' ''NGDP_R'' 2020 2022 fresh)) = []"
    using obtener_miss_ok [where get = mock_get, OF fresh_miss mock_parse]
    by (simp add: fresh_def)
  from fetch_success [where get = get, OF miss resp ok path keys] scenario
  show ?thesis by simp
qed

theorem coercion_failures_are_dropped_witness:
  "lookup_live fresh (''US'', ''NGDP_R'', 2020, 2022) = None
   \<and> mock_get (url_fmi ''NGDP_R'' ''US'' 2020 2022) = Response 200 (Json mock_document)
   \<and> locate mock_document ''NGDP_R'' ''US'' =
       Inr [(''2020'', Text ''100''), (''2021'', Text ''105.5''), (''2022'', Null)]
   \<and> list_all2 (\<lambda>(k, c) y. int64_of_str k = Inr y)
       [(''2020'', Text ''100''), (''2021'', Text ''105.5''), (''2022'', Null)] [2020, 2021, 2022]
   \<and> fst (obtener_datos_fmi mock_get ''US'' ''NGDP_R'' 2020 2022 fresh) =
       concat (map (\<lambda>(y, k, c). case to_numeric c of None \<Rightarrow> [] | Some v \<Rightarrow> [(y, v)])
         (zip [2020, 2021, 2022]
              [(''2020'', Text ''100''), (''2021'', Text ''105.5''), (''2022'', Null)]))"
proof -
  have h1: "lookup_live fresh (''US'', ''NGDP_R'', 2020, 2022) = None"
    by (rule fresh_miss)
  have h2: "mock_get (url_fmi ''NGDP_R'' ''US'' 2020 2022) = Response 200 (Json mock_document)"
    by (simp add: mock_get_def)
  have h3: "\<not> (400 \<le> (200::nat) \<and> (200::nat) < 600)"
    by simp
  show ?thesis
    using coercion_failures_are_dropped
      [where get = mock_get, OF h1 h2 h3 mock_document_path mock_document_keys]
      h1 h2 mock_document_path mock_document_keys
    by blast
qed

section \<open>Year keys that are no integers\<close>

text \<open>
  Claim C10. When the call runs the body and the response is a success in which some year
  key does not read as an integer, the whole fetch fails: the returned frame is empty, an
  error notice is shown (for the exception of the index cast), and the pause is not
  taken. The other years of the response are lost with it, unlike a cell that is no
  number, which costs only its own row.
\<close>

theorem bad_year_key_fails_whole_fetch:
  assumes miss: "lookup_live st (p, i, y0, y1) = None"
    and resp: "get (url_fmi i p y0 y1) = Response status (Json data)"
    and ok: "\<not> (400 \<le> status \<and> status < 600)"
    and path: "locate data i p = Inr series"
    and key: "(k, c) \<in> set series"
    and bad: "py_int k = None"
  shows "fst (obtener_datos_fmi get p i y0 y1 st) = []
       \<and> (screen (snd (obtener_datos_fmi get p i y0 y1 st)) = screen st @ [St_error ValueError]
          \<or> screen (snd (obtener_datos_fmi get p i y0 y1 st)) = screen st @ [St_error OverflowError])
       \<and> sleeps (snd (obtener_datos_fmi get p i y0 y1 st)) = sleeps st"
proof -
  have "isl (int64_of_str k)"
    using bad by (simp add: int64_of_str_def)
  then have "isl (astype_int series)"
    using key by (rule astype_int_Inl [rotated])
  then obtain e where e: "astype_int series = Inl e"
    by (cases "astype_int series") auto
  have parsed: "fetch_and_parse (get (url_fmi i p y0 y1)) i p = Inl e"
    using resp ok path e by (rule fetch_and_parse_bad_index)
  have "e = ValueError \<or> e = OverflowError"
    using e by (rule astype_int_exn)
  then show ?thesis
    using obtener_miss_err [where get = get, OF miss parsed] by auto
qed

theorem bad_year_key_fails_whole_fetch_witness:
  "lookup_live fresh (''US'', ''NGDP_R'', 2020, 2022) = None
   \<and> bad_year_get (url_fmi ''NGDP_R'' ''US'' 2020 2022) =
       Response 200 (Json (Object [(''values'', Object [(''NGDP_R'', Object [(''US'',
         [(''2020'', Text ''100''), (''2021.0'', Text ''105.5'')])])])]))
   \<and> py_int ''2021.0'' = None
   \<and> fst (obtener_datos_fmi bad_year_get ''US'' ''NGDP_R'' 2020 2022 fresh) = []
   \<and> screen (snd (obtener_datos_fmi bad_year_get ''US'' ''NGDP_R'' 2020 2022 fresh)) \<noteq> []"
proof -
  let ?series = "[(''2020'', Text ''100''), (''2021.0'', Text ''105.5'')]"
  let ?doc = "Object [(''values'', Object [(''NGDP_R'', Object [(''US'', ?series)])])]"
  have h1: "lookup_live fresh (''US'', ''NGDP_R'', 2020, 2022) = None"
    by (rule fresh_miss)
  have h2: "bad_year_get (url_fmi ''NGDP_R'' ''US'' 2020 2022) = Response 200 (Json ?doc)"
    by (simp add: bad_year_get_def)
  have h3: "\<not> (400 \<le> (200::nat) \<and> (200::nat) < 600)"
    by simp
  have h4: "locate ?doc ''NGDP_R'' ''US'' = Inr ?series"
    by (simp add: locate_def)
  have h5: "(''2021.0'', Text ''105.5'') \<in> set ?series"
    by simp
  have h6: "py_int ''2021.0'' = None"
    by code_simp
  show ?thesis
    using bad_year_key_fails_whole_fetch [where get = bad_year_get, OF h1 h2 h3 h4 h5 h6] h1 h2 h6
    by auto
qed

section \<open>The years of a returned series\<close>

text \<open>
  Claim C4, as amended. The function neither filters nor sorts: when the call runs the
  body and the response is a success whose year keys all read as integers, the years of
  the returned frame are the years of the response's keys, in the response's order, for
  the cells that coerce to numbers. So they are strictly increasing, without duplicates
  and inside the requested range whenever the years of the response are strictly
  increasing and inside that range.
\<close>

theorem years_follow_upstream:
  assumes miss: "lookup_live st (p, i, y0, y1) = None"
    and resp: "get (url_fmi i p y0 y1) = Response status (Json data)"
    and ok: "\<not> (400 \<le> status \<and> status < 600)"
    and path: "locate data i p = Inr series"
    and keys: "list_all2 (\<lambda>(k, c) y. int64_of_str k = Inr y) series ys"
  shows "map fst (fst (obtener_datos_fmi get p i y0 y1 st)) =
           map fst (filter (\<lambda>(y, k, c). to_numeric c \<noteq> None) (zip ys series))
       \<and> (sorted_wrt (<) ys \<and> set ys \<subseteq> {y0..y1} \<longrightarrow>
            sorted_wrt (<) (map fst (fst (obtener_datos_fmi get p i y0 y1 st)))
          \<and> distinct (map fst (fst (obtener_datos_fmi get p i y0 y1 st)))
          \<and> set (map fst (fst (obtener_datos_fmi get p i y0 y1 st))) \<subseteq> {y0..y1})"
proof -
  let ?years = "map fst (fst (obtener_datos_fmi get p i y0 y1 st))"
  let ?kept = "filter (\<lambda>(y, k, c). to_numeric c \<noteq> None) (zip ys series)"
  have len: "length ys = length series"
    using keys by (simp add: list_all2_lengthD)
  have eq: "?years = map fst ?kept"
    using fetch_success(1) [where get = get, OF miss resp ok path keys]
    by (simp add: years_of_concat)
  have sub: "set (map fst ?kept) \<subseteq> set ys"
  proof -
    have "set ?kept \<subseteq> set (zip ys series)" by auto
    then have "fst ` set ?kept \<subseteq> fst ` set (zip ys series)" by (rule image_mono)
    also have "\<dots> \<subseteq> set ys" by (auto dest: set_zip_leftD)
    finally show ?thesis by simp
  qed
  have "sorted_wrt (<) ?years \<and> distinct ?years \<and> set ?years \<subseteq> {y0..y1}"
    if inc: "sorted_wrt (<) ys" and rng: "set ys \<subseteq> {y0..y1}"
  proof -
    have s: "sorted_wrt (<) ?years"
      unfolding eq using len inc by (rule strictly_increasing_filter)
    then have d: "distinct ?years"
      using strict_sorted_iff by blast
    have "set ?years \<subseteq> {y0..y1}"
      using sub rng unfolding eq by blast
    with s d show ?thesis by simp
  qed
  with eq show ?thesis by blast
qed

theorem years_follow_upstream_witness:
  "lookup_live fresh (''US'', ''NGDP_R'', 2020, 2022) = None
   \<and> mock_get (url_fmi ''NGDP_R'' ''US'' 2020 2022) = Response 200 (Json mock_document)
   \<and> locate mock_document ''NGDP_R'' ''US'' =
       Inr [(''2020'', Text ''100''), (''2021'', Text ''105.5''), (''2022'', Null)]
   \<and> list_all2 (\<lambda>(k, c) y. int64_of_str k = Inr y)
       [(''2020'', Text ''100''), (''2021'', Text ''105.5''), (''2022'', Null)] [2020, 2021, 2022]
   \<and> sorted_wrt (<) [2020, 2021, 2022 :: int]
   \<and> set [2020, 2021, 2022] \<subseteq> {2020..2022 :: int}
   \<and> sorted_wrt (<) (map fst (fst (obtener_datos_fmi mock_get ''US'' ''NGDP_R'' 2020 2022 fresh)))
   \<and> distinct (map fst (fst (obtener_datos_fmi mock_get ''US'' ''NGDP_R'' 2020 2022 fresh)))
   \<and> set (map fst (fst (obtener_datos_fmi mock_get ''US'' ''NGDP_R'' 2020 2022 fresh)))
       \<subseteq> {2020..2022}"
proof -
  have h1: "lookup_live fresh (''US'', ''NGDP_R'', 2020, 2022) = None"
    by (rule fresh_miss)
  have h2: "mock_get (url_fmi ''NGDP_R'' ''US'' 2020 2022) = Response 200 (Json mock_document)"
    by (simp add: mock_get_def)
  have h3: "\<not> (400 \<le> (200::nat) \<and> (200::nat) < 600)"
    by simp
  have h6: "sorted_wrt (<) [2020, 2021, 2022 :: int]"
    by simp
  have h7: "set [2020, 2021, 2022] \<subseteq> {2020..2022 :: int}"
    by simp
  show ?thesis
    using years_follow_upstream
      [where get = mock_get, OF h1 h2 h3 mock_document_path mock_document_keys]
      h1 h2 h6 h7 mock_document_path mock_document_keys
    by blast
qed

text \<open>
  The claim as stated fails: for the range 2020-2021, an upstream that answers with the
  keys 2021, 2019 and 02021 gets the years 2021, 2019, 2021 back, which are not
  increasing, not distinct and not all in the range.
\<close>

theorem years_out_of_range_counterexample:
  "map fst (fst (obtener_datos_fmi unfiltered_get ''US'' ''NGDP_R'' 2020 2021 fresh)) =
     [2021, 2019, 2021]
   \<and> \<not> sorted_wrt (<) (map fst (fst (obtener_datos_fmi unfiltered_get ''US'' ''NGDP_R'' 2020 2021 fresh)))
   \<and> \<not> distinct (map fst (fst (obtener_datos_fmi unfiltered_get ''US'' ''NGDP_R'' 2020 2021 fresh)))
   \<and> \<not> set (map fst (fst (obtener_datos_fmi unfiltered_get ''US'' ''NGDP_R'' 2020 2021 fresh)))
         \<subseteq> {2020..2021}"
proof -
  have "map fst (fst (obtener_datos_fmi unfiltered_get ''US'' ''NGDP_R'' 2020 2021 fresh)) =
     [2021, 2019, 2021]"
    using obtener_miss_ok [where get = unfiltered_get, OF fresh_miss unfiltered_parse]
    by simp
  then show ?thesis by simp
qed

section \<open>Failures of the fetch\<close>

text \<open>
  Claim C1, as amended. The function has no exception among its results: the whole body
  is inside \<^verbatim>\<open>try\<close>, for any strings and any integer years. When the call runs the
  body, each of these ends in the empty frame and exactly one error notice, for the
  exception named: the request raises; the status is a client or server error (400 to
  599, the codes \<^verbatim>\<open>raise_for_status\<close> rejects); the body is not JSON; the document
  lacks the path \<^verbatim>\<open>values / indicator / country\<close>.
\<close>

theorem fetch_failures_are_caught:
  assumes miss: "lookup_live st (p, i, y0, y1) = None"
    and failure:
      "(\<exists>msg. get (url_fmi i p y0 y1) = No_response msg \<and> e = RequestException msg)
     \<or> (\<exists>status b. get (url_fmi i p y0 y1) = Response status b
           \<and> 400 \<le> status \<and> status < 600 \<and> e = HTTPError status)
     \<or> (\<exists>status. get (url_fmi i p y0 y1) = Response status Not_json
           \<and> \<not> (400 \<le> status \<and> status < 600) \<and> e = JSONDecodeError)
     \<or> (\<exists>status data. get (url_fmi i p y0 y1) = Response status (Json data)
           \<and> \<not> (400 \<le> status \<and> status < 600) \<and> locate data i p = Inl e)"
  shows "fst (obtener_datos_fmi get p i y0 y1 st) = []
       \<and> screen (snd (obtener_datos_fmi get p i y0 y1 st)) = screen st @ [St_error e]"
proof -
  have "fetch_and_parse (get (url_fmi i p y0 y1)) i p = Inl e"
    using failure by (rule fetch_and_parse_failure)
  then show ?thesis
    using obtener_miss_err [where get = get, OF miss] by simp
qed

theorem fetch_failures_are_caught_witness:
  "lookup_live fresh (''MX'', ''NGDP_R'', -5, 999999) = None
   \<and> server_error_get (url_fmi ''NGDP_R'' ''MX'' (-5) 999999) = Response 500 Not_json
   \<and> fst (obtener_datos_fmi server_error_get ''MX'' ''NGDP_R'' (-5) 999999 fresh) = []
   \<and> screen (snd (obtener_datos_fmi server_error_get ''MX'' ''NGDP_R'' (-5) 999999 fresh)) =
       [St_error (HTTPError 500)]"
proof -
  have h1: "lookup_live fresh (''MX'', ''NGDP_R'', -5, 999999) = None"
    by (rule fresh_miss)
  have h2: "server_error_get (url_fmi ''NGDP_R'' ''MX'' (-5) 999999) = Response 500 Not_json"
    by (simp add: server_error_get_def)
  have h3: "(\<exists>msg. server_error_get (url_fmi ''NGDP_R'' ''MX'' (-5) 999999) = No_response msg
             \<and> HTTPError 500 = RequestException msg)
     \<or> (\<exists>status b. server_error_get (url_fmi ''NGDP_R'' ''MX'' (-5) 999999) = Response status b
           \<and> 400 \<le> status \<and> status < 600 \<and> HTTPError 500 = HTTPError status)
     \<or> (\<exists>status. server_error_get (url_fmi ''NGDP_R'' ''MX'' (-5) 999999) = Response status Not_json
           \<and> \<not> (400 \<le> status \<and> status < 600) \<and> HTTPError 500 = JSONDecodeError)
     \<or> (\<exists>status data. server_error_get (url_fmi ''NGDP_R'' ''MX'' (-5) 999999) =
             Response status (Json data)
           \<and> \<not> (400 \<le> status \<and> status < 600) \<and> locate data ''NGDP_R'' ''MX'' = Inl (HTTPError 500))"
    by (simp add: server_error_get_def)
  show ?thesis
    using fetch_failures_are_caught [where get = server_error_get, OF h1 h3] h1 h2
    by (simp add: fresh_def)
qed

text \<open>
  The claim as stated fails for a status that is no success and no error code: a response
  with status 300 and the scenario's document as its body passes \<^verbatim>\<open>raise_for_status\<close>
  and is parsed like a success; the frame is not empty and no notice is shown.
\<close>

theorem status_300_counterexample:
  "multiple_choices_get (url_fmi ''NGDP_R'' ''US'' 2020 2022) = Response 300 (Json mock_document)
   \<and> fst (obtener_datos_fmi multiple_choices_get ''US'' ''NGDP_R'' 2020 2022 fresh) =
       [(2020, 100), (2021, 211 / 2)]
   \<and> screen (snd (obtener_datos_fmi multiple_choices_get ''US'' ''NGDP_R'' 2020 2022 fresh)) = []"
  using obtener_miss_ok [where get = multiple_choices_get, OF fresh_miss multiple_choices_parse]
  by (simp add: fresh_def multiple_choices_get_def)

section \<open>The cache\<close>

text \<open>
  Claim C8. A call of the decorated function pauses for half a second exactly when it
  misses the cache and the fetch and the parsing succeed: the pause is logged, and the
  clock advances by 1/2, in that case and in no other. A hit does not pause, and neither
  does a miss that ends in the error branch.
\<close>

theorem pause_iff_miss_and_success:
  "sleeps (snd (obtener_datos_fmi get p i y0 y1 st)) =
     sleeps st @
       (if lookup_live st (p, i, y0, y1) = None
           \<and> \<not> isl (fetch_and_parse (get (url_fmi i p y0 y1)) i p)
        then [1 / 2] else [])
   \<and> clock (snd (obtener_datos_fmi get p i y0 y1 st)) =
     clock st +
       (if lookup_live st (p, i, y0, y1) = None
           \<and> \<not> isl (fetch_and_parse (get (url_fmi i p y0 y1)) i p)
        then 1 / 2 else 0)
   \<and> (sleeps (snd (obtener_datos_fmi get p i y0 y1 st)) \<noteq> sleeps st) =
       (lookup_live st (p, i, y0, y1) = None
          \<and> \<not> isl (fetch_and_parse (get (url_fmi i p y0 y1)) i p))"
proof (cases "lookup_live st (p, i, y0, y1)")
  case None
  then show ?thesis
    by (cases "fetch_and_parse (get (url_fmi i p y0 y1)) i p")
      (simp_all add: obtener_miss_err obtener_miss_ok)
next
  case (Some e)
  then show ?thesis by (simp add: obtener_hit)
qed

text \<open>
  Claim C9. The frame of the error branch is stored like any other: after a call that ran
  the body and failed with the exception \<open>e\<close>, the cache holds, under the call's key, the
  empty frame with the time at which the call ended; an identical call less than 3600
  seconds later returns the empty frame and issues no request, whatever the upstream
  would answer then.
\<close>

theorem failed_fetch_is_cached:
  assumes miss: "lookup_live st (p, i, y0, y1) = None"
    and fail: "fetch_and_parse (get (url_fmi i p y0 y1)) i p = Inl e"
    and s1: "s1 = snd (obtener_datos_fmi get p i y0 y1 st)"
    and within: "d < 3600"
  shows "fst (obtener_datos_fmi get p i y0 y1 st) = []
       \<and> map_of (cache s1) (p, i, y0, y1) =
           Some \<lparr>result_df = [], replay = [St_error e], stored_at = clock s1\<rparr>
       \<and> fst (obtener_datos_fmi get' p i y0 y1 (elapse d s1)) = []
       \<and> network (snd (obtener_datos_fmi get' p i y0 y1 (elapse d s1))) = network s1"
proof -
  note first = obtener_miss_err [where get = get, OF miss fail]
  have entry: "map_of (cache s1) (p, i, y0, y1) =
      Some \<lparr>result_df = [], replay = [St_error e], stored_at = clock s1\<rparr>"
    using first s1 by simp
  have live: "lookup_live (elapse d s1) (p, i, y0, y1) =
      Some \<lparr>result_df = [], replay = [St_error e], stored_at = clock s1\<rparr>"
    using entry within by (simp add: lookup_live_elapse ttl_def)
  show ?thesis
    using first entry obtener_hit [where get = get', OF live] by simp
qed

theorem failed_fetch_is_cached_witness:
  "lookup_live fresh (''MX'', ''NGDP_R'', 2010, 2023) = None
   \<and> fetch_and_parse (server_error_get (url_fmi ''NGDP_R'' ''MX'' 2010 2023)) ''NGDP_R'' ''MX'' =
       Inl (HTTPError 500)
   \<and> (1800 :: rat) < 3600
   \<and> fst (obtener_datos_fmi mock_get ''MX'' ''NGDP_R'' 2010 2023
        (elapse 1800 (snd (obtener_datos_fmi server_error_get ''MX'' ''NGDP_R'' 2010 2023 fresh)))) = []
   \<and> network (snd (obtener_datos_fmi mock_get ''MX'' ''NGDP_R'' 2010 2023
        (elapse 1800 (snd (obtener_datos_fmi server_error_get ''MX'' ''NGDP_R'' 2010 2023 fresh))))) =
       network (snd (obtener_datos_fmi server_error_get ''MX'' ''NGDP_R'' 2010 2023 fresh))"
proof -
  have h1: "lookup_live fresh (''MX'', ''NGDP_R'', 2010, 2023) = None"
    by (rule fresh_miss)
  have h2: "fetch_and_parse (server_error_get (url_fmi ''NGDP_R'' ''MX'' 2010 2023)) ''NGDP_R'' ''MX'' =
       Inl (HTTPError 500)"
    by (simp add: server_error_get_def fetch_and_parse_def raise_for_status_def)
  have h4: "(1800 :: rat) < 3600"
    by simp
  show ?thesis
    using failed_fetch_is_cached [where get = server_error_get and get' = mock_get, OF h1 h2 refl h4]
      h1 h2
    by simp
qed

text \<open>
  Claim C2. A call that misses the cache issues one request and stores its result under
  the full argument tuple. A call whose tuple differs, here placed in between, is not
  served by that entry: it issues its own request. An identical call made while the clock
  is less than 3600 seconds past the end of the first returns the same frame and issues
  no request; made at 3600 seconds or later, it issues exactly one new request. This
  holds whatever the three upstreams answer.
\<close>

theorem cache_hit_within_ttl:
  assumes miss: "lookup_live st (p, i, y0, y1) = None"
    and miss': "lookup_live st (p', i', y0', y1') = None"
    and other: "(p', i', y0', y1') \<noteq> (p, i, y0, y1)"
    and s1: "s1 = snd (obtener_datos_fmi get p i y0 y1 st)"
    and s2: "s2 = snd (obtener_datos_fmi get2 p' i' y0' y1' s1)"
    and s3: "s3 = elapse d s2"
  shows "network s1 = network st @ [url_fmi i p y0 y1]
       \<and> network s2 = network s1 @ [url_fmi i' p' y0' y1']
       \<and> (clock s3 < clock s1 + 3600 \<longrightarrow>
            fst (obtener_datos_fmi get3 p i y0 y1 s3) = fst (obtener_datos_fmi get p i y0 y1 st)
          \<and> network (snd (obtener_datos_fmi get3 p i y0 y1 s3)) = network s3)
       \<and> (clock s1 + 3600 \<le> clock s3 \<longrightarrow>
            network (snd (obtener_datos_fmi get3 p i y0 y1 s3)) = network s3 @ [url_fmi i p y0 y1])"
proof -
  let ?k = "(p, i, y0, y1)" and ?k' = "(p', i', y0', y1')"
  obtain r where c1: "cache s1 =
      (?k, \<lparr>result_df = fst (obtener_datos_fmi get p i y0 y1 st), replay = r,
             stored_at = clock s1\<rparr>) # cache st"
    using obtener_miss_entry [where get = get, OF miss] s1 by blast
  have n1: "network s1 = network st @ [url_fmi i p y0 y1]"
    using miss s1 by (simp add: obtener_network)
  have "map_of (cache s1) ?k' = map_of (cache st) ?k'"
    unfolding c1 using other by (rule map_of_other_key)
  moreover have "clock st \<le> clock s1"
    unfolding s1 by (rule obtener_clock_mono)
  ultimately have miss1: "lookup_live s1 ?k' = None"
    using miss' by (blast intro: lookup_live_later)
  have n2: "network s2 = network s1 @ [url_fmi i' p' y0' y1']"
    using miss1 s2 by (simp add: obtener_network)
  obtain r' where c2: "cache s2 =
      (?k', \<lparr>result_df = fst (obtener_datos_fmi get2 p' i' y0' y1' s1), replay = r',
              stored_at = clock s2\<rparr>) # cache s1"
    using obtener_miss_entry [where get = get2, OF miss1] s2 by blast
  have entry: "map_of (cache s2) ?k =
      Some \<lparr>result_df = fst (obtener_datos_fmi get p i y0 y1 st), replay = r,
            stored_at = clock s1\<rparr>"
    unfolding c2 c1 using other by (rule map_of_under_other_key)
  have clk: "clock s3 = clock s2 + d"
    using s3 by (simp add: elapse_def)
  have hit: "fst (obtener_datos_fmi get3 p i y0 y1 s3) = fst (obtener_datos_fmi get p i y0 y1 st)
      \<and> network (snd (obtener_datos_fmi get3 p i y0 y1 s3)) = network s3"
    if "clock s3 < clock s1 + 3600"
  proof -
    have "lookup_live s3 ?k =
        Some \<lparr>result_df = fst (obtener_datos_fmi get p i y0 y1 st), replay = r,
              stored_at = clock s1\<rparr>"
      using entry that clk s3 by (simp add: lookup_live_elapse ttl_def)
    then show ?thesis
      using obtener_hit [where get = get3] by simp
  qed
  have expired: "network (snd (obtener_datos_fmi get3 p i y0 y1 s3)) =
      network s3 @ [url_fmi i p y0 y1]"
    if "clock s1 + 3600 \<le> clock s3"
  proof -
    have "lookup_live s3 ?k = None"
      using entry that clk s3 by (simp add: lookup_live_elapse ttl_def)
    then show ?thesis
      by (simp add: obtener_network)
  qed
  from n1 n2 hit expired show ?thesis by blast
qed

theorem cache_hit_within_ttl_witness:
  "lookup_live fresh (''US'', ''NGDP_R'', 2020, 2022) = None
   \<and> lookup_live fresh (''US'', ''NGDP_R'', 2020, 2023) = None
   \<and> (''US'', ''NGDP_R'', 2020, 2023 :: int) \<noteq> (''US'', ''NGDP_R'', 2020, 2022 :: int)
   \<and> clock (elapse 3599 after_other) < clock after_first + 3600
   \<and> fst (obtener_datos_fmi server_error_get ''US'' ''NGDP_R'' 2020 2022 (elapse 3599 after_other)) =
       [(2020, 100), (2021, 211 / 2)]
   \<and> network (snd (obtener_datos_fmi server_error_get ''US'' ''NGDP_R'' 2020 2022
        (elapse 3599 after_other))) = network (elapse 3599 after_other)
   \<and> clock after_first + 3600 \<le> clock (elapse 3600 after_other)
   \<and> network (snd (obtener_datos_fmi server_error_get ''US'' ''NGDP_R'' 2020 2022
        (elapse 3600 after_other))) =
       network (elapse 3600 after_other) @ [url_fmi ''NGDP_R'' ''US'' 2020 2022]"
proof -
  have h1: "lookup_live fresh (''US'', ''NGDP_R'', 2020, 2022) = None"
    by (rule fresh_miss)
  have h2: "lookup_live fresh (''US'', ''NGDP_R'', 2020, 2023) = None"
    by (rule fresh_miss)
  have h3: "(''US'', ''NGDP_R'', 2020, 2023 :: int) \<noteq> (''US'', ''NGDP_R'', 2020, 2022 :: int)"
    by simp
  have first: "fst (obtener_datos_fmi mock_get ''US'' ''NGDP_R'' 2020 2022 fresh) =
      [(2020, 100), (2021, 211 / 2)]"
    using obtener_miss_ok [where get = mock_get, OF fresh_miss mock_parse] by simp
  have c1: "clock after_first = 1 / 2"
    by (simp add: after_first_eq)
  have t1: "clock (elapse 3599 after_other) < clock after_first + 3600"
    by (simp add: elapse_def after_other_clock c1)
  have t2: "clock after_first + 3600 \<le> clock (elapse 3600 after_other)"
    by (simp add: elapse_def after_other_clock c1)
  note hit = cache_hit_within_ttl
    [where get = mock_get and ?get2.0 = mock_get and ?get3.0 = server_error_get and d = 3599,
     OF h1 h2 h3 after_first_def after_other_def refl]
  note expired = cache_hit_within_ttl
    [where get = mock_get and ?get2.0 = mock_get and ?get3.0 = server_error_get and d = 3600,
     OF h1 h2 h3 after_first_def after_other_def refl]
  show ?thesis
    using hit expired h1 h2 h3 t1 t2 first by simp
qed

section \<open>Aggregation and rendering\<close>

text \<open>The loop with its accumulator, unfolded one country at a time; the list it builds
  holds no empty frame; it calls the fetch function once per country.\<close>

lemma tag_Nil_iff [simp]: "tag p df = [] \<longleftrightarrow> df = []"
  by (simp add: tag_def)

lemma Nil_tag_iff [simp]: "[] = tag p df \<longleftrightarrow> df = []"
  by (simp add: tag_def)

lemma collect_acc:
  "collect get c a b ps datos st =
     (datos @ fst (collect get c a b ps [] st), snd (collect get c a b ps [] st))"
proof (induction ps arbitrary: datos st)
  case Nil
  show ?case by simp
next
  case (Cons p ps)
  obtain df st1 where o: "obtener_datos_fmi get (iso2 p) c a b st = (df, st1)"
    by (cases "obtener_datos_fmi get (iso2 p) c a b st")
  show ?case
  proof (cases "df = []")
    case True
    with o Cons.IH [of datos st1] show ?thesis by simp
  next
    case False
    with o Cons.IH [of "datos @ [tag p df]" st1] Cons.IH [of "[tag p df]" st1]
    show ?thesis by simp
  qed
qed

lemma collect_Cons:
  "collect get c a b (p # ps) [] st =
     ((if fst (obtener_datos_fmi get (iso2 p) c a b st) \<noteq> []
       then [tag p (fst (obtener_datos_fmi get (iso2 p) c a b st))] else [])
        @ fst (collect get c a b ps [] (snd (obtener_datos_fmi get (iso2 p) c a b st))),
      snd (collect get c a b ps [] (snd (obtener_datos_fmi get (iso2 p) c a b st))))"
proof -
  obtain df st1 where o: "obtener_datos_fmi get (iso2 p) c a b st = (df, st1)"
    by (cases "obtener_datos_fmi get (iso2 p) c a b st")
  show ?thesis
    using o collect_acc [of get c a b ps "[tag p df]" st1] by simp
qed

lemma collect_no_empty: "[] \<notin> set (fst (collect get c a b ps [] st))"
proof (induction ps arbitrary: st)
  case Nil
  show ?case by simp
next
  case (Cons p ps)
  show ?case
    using Cons.IH [of "snd (obtener_datos_fmi get (iso2 p) c a b st)"]
    by (simp add: collect_Cons del: collect.simps)
qed

lemma collect_calls:
  "calls (snd (collect get c a b ps datos st)) = calls st @ map (\<lambda>p. (iso2 p, c, a, b)) ps"
proof (induction ps arbitrary: datos st)
  case Nil
  show ?case by simp
next
  case (Cons p ps)
  obtain df st1 where o: "obtener_datos_fmi get (iso2 p) c a b st = (df, st1)"
    by (cases "obtener_datos_fmi get (iso2 p) c a b st")
  have "calls st1 = calls st @ [(iso2 p, c, a, b)]"
    using obtener_calls [of get "iso2 p" c a b st] o by simp
  with o Cons.IH [of _ st1] show ?case by simp
qed

lemma concat_Nil_iff: "[] \<notin> set xss \<Longrightarrow> concat xss = [] \<longleftrightarrow> xss = []"
  by (cases xss) auto

lemma panel_eq:
  "panel get c t k u ps a b st =
     (if concat (fst (collect get c a b ps [] st)) = [] then Inr (snd (collect get c a b ps [] st))
      else crear_grafico_comparativo (concat (fst (collect get c a b ps [] st))) t k u True
             (snd (collect get c a b ps [] st)))"
  using concat_Nil_iff [OF collect_no_empty, of get c a b ps st]
  by (simp add: panel_def split_beta)

lemma mexico_fails_parse_mx:
  "fetch_and_parse (mexico_fails_get (url_fmi ''NGDP_R'' ''MX'' 2020 2022)) ''NGDP_R'' ''MX'' =
     Inl (HTTPError 500)"
  by (simp add: mexico_fails_get_def url_fmi_def fetch_and_parse_def raise_for_status_def)

lemma mexico_fails_parse_us:
  "fetch_and_parse (mexico_fails_get (url_fmi ''NGDP_R'' ''US'' 2020 2022)) ''NGDP_R'' ''US'' =
     Inr [(2020, Some 100), (2021, Some (211 / 2)), (2022, None)]"
  using mock_parse by (simp add: mexico_fails_get_def mock_get_def)

lemma mexico_fails_collect:
  "collect mexico_fails_get ''NGDP_R'' 2020 2022 [MEX, USA] [] fresh =
     ([[(2020, 100, ''Estados Unidos''), (2021, 211 / 2, ''Estados Unidos'')]],
      fresh\<lparr>calls := [(''MX'', ''NGDP_R'', 2020, 2022), (''US'', ''NGDP_R'', 2020, 2022)],
            network := [url_fmi ''NGDP_R'' ''MX'' 2020 2022, url_fmi ''NGDP_R'' ''US'' 2020 2022],
            screen := [St_error (HTTPError 500)],
            clock := 1 / 2,
            sleeps := [1 / 2],
            cache := [((''US'', ''NGDP_R'', 2020, 2022),
                       \<lparr>result_df = [(2020, 100), (2021, 211 / 2)], replay = [],
                          stored_at = 1 / 2\<rparr>),
                      ((''MX'', ''NGDP_R'', 2020, 2022),
                       \<lparr>result_df = [], replay = [St_error (HTTPError 500)], stored_at = 0\<rparr>)]\<rparr>)"
proof -
  have mx: "obtener_datos_fmi mexico_fails_get ''MX'' ''NGDP_R'' 2020 2022 fresh =
     ([], fresh\<lparr>calls := [(''MX'', ''NGDP_R'', 2020, 2022)],
            network := [url_fmi ''NGDP_R'' ''MX'' 2020 2022],
            screen := [St_error (HTTPError 500)],
            cache := [((''MX'', ''NGDP_R'', 2020, 2022),
                       \<lparr>result_df = [], replay = [St_error (HTTPError 500)], stored_at = 0\<rparr>)]\<rparr>)"
    using obtener_miss_err [where get = mexico_fails_get, OF fresh_miss mexico_fails_parse_mx]
    by (simp add: fresh_def)
  let ?st1 = "snd (obtener_datos_fmi mexico_fails_get ''MX'' ''NGDP_R'' 2020 2022 fresh)"
  have miss: "lookup_live ?st1 (''US'', ''NGDP_R'', 2020, 2022) = None"
    unfolding mx by (simp add: lookup_live_def fresh_def)
  have us: "obtener_datos_fmi mexico_fails_get ''US'' ''NGDP_R'' 2020 2022 ?st1 =
     ([(2020, 100), (2021, 211 / 2)],
      fresh\<lparr>calls := [(''MX'', ''NGDP_R'', 2020, 2022), (''US'', ''NGDP_R'', 2020, 2022)],
            network := [url_fmi ''NGDP_R'' ''MX'' 2020 2022, url_fmi ''NGDP_R'' ''US'' 2020 2022],
            screen := [St_error (HTTPError 500)],
            clock := 1 / 2,
            sleeps := [1 / 2],
            cache := [((''US'', ''NGDP_R'', 2020, 2022),
                       \<lparr>result_df = [(2020, 100), (2021, 211 / 2)], replay = [],
                          stored_at = 1 / 2\<rparr>),
                      ((''MX'', ''NGDP_R'', 2020, 2022),
                       \<lparr>result_df = [], replay = [St_error (HTTPError 500)], stored_at = 0\<rparr>)]\<rparr>)"
    using obtener_miss_ok [where get = mexico_fails_get, OF miss mexico_fails_parse_us]
    unfolding mx by (simp add: fresh_def)
  have "collect mexico_fails_get ''NGDP_R'' 2020 2022 [MEX, USA] [] fresh =
      ([tag USA (fst (obtener_datos_fmi mexico_fails_get ''US'' ''NGDP_R'' 2020 2022 ?st1))],
       snd (obtener_datos_fmi mexico_fails_get ''US'' ''NGDP_R'' 2020 2022 ?st1))"
    using us by (simp add: mx)
  then show ?thesis
    unfolding us by (simp add: tag_def)
qed

lemma no_data_parse:
  "fetch_and_parse (no_data_get u) ''NGDP_R'' ''US'' = Inr [(2020, None), (2021, None)]"
  by code_simp

lemma collect_balanza_calls:
  "calls (snd (collect_balanza get fin ps datos st)) =
     calls st @ concat (map (\<lambda>p. [(iso2 p, ''TXG_FOB_USD'', fin, fin),
                                    (iso2 p, ''TMG_CIF_USD'', fin, fin)]) ps)"
proof (induction ps arbitrary: datos st)
  case Nil
  show ?case by simp
next
  case (Cons p ps)
  obtain dfe st1 where e: "obtener_datos_fmi get (iso2 p) ''TXG_FOB_USD'' fin fin st = (dfe, st1)"
    by (cases "obtener_datos_fmi get (iso2 p) ''TXG_FOB_USD'' fin fin st")
  obtain dfi st2 where i: "obtener_datos_fmi get (iso2 p) ''TMG_CIF_USD'' fin fin st1 = (dfi, st2)"
    by (cases "obtener_datos_fmi get (iso2 p) ''TMG_CIF_USD'' fin fin st1")
  have "calls st1 = calls st @ [(iso2 p, ''TXG_FOB_USD'', fin, fin)]"
    using obtener_calls [of get "iso2 p" "''TXG_FOB_USD''" fin fin st] e by simp
  moreover have "calls st2 = calls st1 @ [(iso2 p, ''TMG_CIF_USD'', fin, fin)]"
    using obtener_calls [of get "iso2 p" "''TMG_CIF_USD''" fin fin st1] i by simp
  ultimately show ?case
    using e i Cons.IH [of _ st2] by simp
qed

lemma trade_parse_exports:
  "fetch_and_parse (trade_get (url_fmi ''TXG_FOB_USD'' ''US'' 2023 2023)) ''TXG_FOB_USD'' ''US'' =
     Inr [(2023, Some 50)]"
proof -
  have "int64_of_str ''2023'' = Inr 2023" by code_simp
  then show ?thesis
    by (simp add: trade_get_def fetch_and_parse_def raise_for_status_def response_json_def
        locate_def)
qed

lemma trade_parse_imports:
  "fetch_and_parse (trade_get (url_fmi ''TMG_CIF_USD'' ''US'' 2023 2023)) ''TMG_CIF_USD'' ''US'' =
     Inr [(2023, Some 70)]"
proof -
  have "int64_of_str ''2023'' = Inr 2023" by code_simp
  moreover have "url_fmi ''TMG_CIF_USD'' ''US'' 2023 2023 \<noteq> url_fmi ''TXG_FOB_USD'' ''US'' 2023 2023"
    by (simp add: url_fmi_def)
  ultimately show ?thesis
    by (simp add: trade_get_def fetch_and_parse_def raise_for_status_def response_json_def
        locate_def)
qed

lemma str_int_2023: "str_int 2023 = ''2023''"
  by code_simp

lemma trade_screen:
  "screen (balanza_comercial trade_get [USA] 2023 fresh) =
     [St_plotly_chart (Grouped_bars ''Balanza Comercial (2023)''
        [(''Estados Unidos'', ''Exportaciones'', 50), (''Estados Unidos'', ''Importaciones'', 70)])]"
proof -
  have ex: "obtener_datos_fmi trade_get ''US'' ''TXG_FOB_USD'' 2023 2023 fresh =
     ([(2023, 50)],
      fresh\<lparr>calls := [(''US'', ''TXG_FOB_USD'', 2023, 2023)],
            network := [url_fmi ''TXG_FOB_USD'' ''US'' 2023 2023],
            clock := 1 / 2,
            sleeps := [1 / 2],
            cache := [((''US'', ''TXG_FOB_USD'', 2023, 2023),
                       \<lparr>result_df = [(2023, 50)], replay = [], stored_at = 1 / 2\<rparr>)]\<rparr>)"
    using obtener_miss_ok [where get = trade_get, OF fresh_miss trade_parse_exports]
    by (simp add: fresh_def)
  let ?st1 = "snd (obtener_datos_fmi trade_get ''US'' ''TXG_FOB_USD'' 2023 2023 fresh)"
  have miss: "lookup_live ?st1 (''US'', ''TMG_CIF_USD'', 2023, 2023) = None"
    unfolding ex by (simp add: lookup_live_def fresh_def)
  have im: "fst (obtener_datos_fmi trade_get ''US'' ''TMG_CIF_USD'' 2023 2023 ?st1) = [(2023, 70)]
      \<and> screen (snd (obtener_datos_fmi trade_get ''US'' ''TMG_CIF_USD'' 2023 2023 ?st1)) = []"
    using obtener_miss_ok [where get = trade_get, OF miss trade_parse_imports]
    unfolding ex by (simp add: fresh_def)
  have "collect_balanza trade_get 2023 [USA] [] fresh =
      ([(''Estados Unidos'', 50, 70)],
       snd (obtener_datos_fmi trade_get ''US'' ''TMG_CIF_USD'' 2023 2023 ?st1))"
    using im by (simp add: ex split_beta)
  then show ?thesis
    using im by (simp add: balanza_comercial_def melt_def str_int_2023)
qed

text \<open>
  Claim C6. For every list of selected countries the loop calls the fetch function once
  per country, in order, with that country's two-letter code; the aggregated panel is the
  concatenation, country by country, of the rows fetched for it, each with the country's
  display name, so a country whose frame is empty adds nothing, and no empty frame is
  kept. In the scenario, Mexico's fetch fails and that of the United States succeeds: the
  panel holds the two rows of the United States, and the page shows Mexico's error
  notice, then the chart and the table, not a failure.
\<close>

theorem aggregation_skips_empty_series:
  "calls (snd (collect get c a b ps [] st)) = calls st @ map (\<lambda>p. (iso2 p, c, a, b)) ps
   \<and> concat (fst (collect get c a b [] [] st)) = []
   \<and> concat (fst (collect get c a b (p # ps) [] st)) =
       map (\<lambda>(y, v). (y, v, nombre p)) (fst (obtener_datos_fmi get (iso2 p) c a b st))
         @ concat (fst (collect get c a b ps [] (snd (obtener_datos_fmi get (iso2 p) c a b st))))
   \<and> [] \<notin> set (fst (collect get c a b ps [] st))
   \<and> concat (fst (collect mexico_fails_get ''NGDP_R'' 2020 2022 [MEX, USA] [] fresh)) =
       [(2020, 100, ''Estados Unidos''), (2021, 211 / 2, ''Estados Unidos'')]
   \<and> map_sum id screen
        (panel mexico_fails_get ''NGDP_R'' (''Evoluci'' @ [CHR 0xC3, CHR 0xB3] @ ''n del PIB'')
           ''bar'' ''USD'' [MEX, USA] 2020 2022 fresh) =
       Inr [St_error (HTTPError 500),
            St_plotly_chart
              (Bar_chart (''Evoluci'' @ [CHR 0xC3, CHR 0xB3] @ ''n del PIB (USD)'') ''USD''
                 [(2020, 100, ''Estados Unidos''), (2021, 211 / 2, ''Estados Unidos'')]),
            St_dataframe
              ([2020, 2021], [''Estados Unidos''],
               [((2020, ''Estados Unidos''), 100), ((2021, ''Estados Unidos''), 211 / 2)])]"
proof -
  have step: "concat (fst (collect get c a b (p # ps) [] st)) =
       map (\<lambda>(y, v). (y, v, nombre p)) (fst (obtener_datos_fmi get (iso2 p) c a b st))
         @ concat (fst (collect get c a b ps [] (snd (obtener_datos_fmi get (iso2 p) c a b st))))"
    by (simp add: collect_Cons tag_def del: collect.simps)
  have rows: "concat (fst (collect mexico_fails_get ''NGDP_R'' 2020 2022 [MEX, USA] [] fresh)) =
       [(2020, 100, ''Estados Unidos''), (2021, 211 / 2, ''Estados Unidos'')]"
    by (simp add: mexico_fails_collect del: collect.simps)
  have shown: "map_sum id screen
        (panel mexico_fails_get ''NGDP_R'' (''Evoluci'' @ [CHR 0xC3, CHR 0xB3] @ ''n del PIB'')
           ''bar'' ''USD'' [MEX, USA] 2020 2022 fresh) =
       Inr [St_error (HTTPError 500),
            St_plotly_chart
              (Bar_chart (''Evoluci'' @ [CHR 0xC3, CHR 0xB3] @ ''n del PIB (USD)'') ''USD''
                 [(2020, 100, ''Estados Unidos''), (2021, 211 / 2, ''Estados Unidos'')]),
            St_dataframe
              ([2020, 2021], [''Estados Unidos''],
               [((2020, ''Estados Unidos''), 100), ((2021, ''Estados Unidos''), 211 / 2)])]"
    unfolding panel_def mexico_fails_collect
    by (simp add: crear_grafico_comparativo_def pivot_def fresh_def)
  show ?thesis
    using collect_calls [of get c a b ps "[]" st] step collect_no_empty [of get c a b ps st]
      rows shown
    by simp
qed

text \<open>
  Claim C5. The code does not do what the claim says. Whatever the inputs, when the
  aggregated panel is empty the block calls nothing after its loop: the guard of line
  138 skips \<^verbatim>\<open>crear_grafico_comparativo\<close>, the only place that shows the notice
  \<^verbatim>\<open>No hay datos disponibles\<close>, so that branch of the function (lines 78-80) is never
  reached from the script. With no country selected the page is unchanged; with a country
  whose series holds no value, the page of a fresh run shows nothing at all for the panel.
\<close>

theorem empty_panel_shows_no_warning:
  "panel get c t k u ps a b st =
     (if concat (fst (collect get c a b ps [] st)) = []
      then Inr (snd (collect get c a b ps [] st))
      else crear_grafico_comparativo (concat (fst (collect get c a b ps [] st))) t k u True
             (snd (collect get c a b ps [] st)))
   \<and> panel get c t k u [] a b st = Inr st
   \<and> map_sum id screen
        (panel no_data_get ''NGDP_R'' (''Evoluci'' @ [CHR 0xC3, CHR 0xB3] @ ''n del PIB'')
           ''bar'' ''USD'' [USA] 2020 2022 fresh) = Inr []"
proof -
  have none: "panel get c t k u [] a b st = Inr st"
    by (simp add: panel_def)
  have "obtener_datos_fmi no_data_get ''US'' ''NGDP_R'' 2020 2022 fresh =
      ([], fresh\<lparr>calls := [(''US'', ''NGDP_R'', 2020, 2022)],
            network := [url_fmi ''NGDP_R'' ''US'' 2020 2022],
            clock := 1 / 2,
            sleeps := [1 / 2],
            cache := [((''US'', ''NGDP_R'', 2020, 2022),
                       \<lparr>result_df = [], replay = [], stored_at = 1 / 2\<rparr>)]\<rparr>)"
    using obtener_miss_ok [where get = no_data_get, OF fresh_miss no_data_parse]
    by (simp add: fresh_def)
  then have "map_sum id screen
        (panel no_data_get ''NGDP_R'' (''Evoluci'' @ [CHR 0xC3, CHR 0xB3] @ ''n del PIB'')
           ''bar'' ''USD'' [USA] 2020 2022 fresh) = Inr []"
    by (simp add: panel_def fresh_def)
  with panel_eq [of get c t k u ps a b st] none show ?thesis
    by simp
qed

text \<open>
  Claim C7, as amended. For every list of selected countries the trade-balance block
  calls the fetch function twice per country, for exports and for imports, both with the
  end of the range as start and end year. A country with exports \<open>e\<close> and imports \<open>m\<close>
  gives two bars, \<open>e\<close> under the label \<^verbatim>\<open>Exportaciones\<close> and \<open>m\<close> under
  \<^verbatim>\<open>Importaciones\<close>. In the scenario (one country, 2023, exports 50, imports 70) the
  page shows one grouped bar chart with exactly these two bars.
\<close>

theorem trade_balance_two_bars:
  "calls (balanza_comercial get ps fin st) =
     calls st @ concat (map (\<lambda>p. [(iso2 p, ''TXG_FOB_USD'', fin, fin),
                                    (iso2 p, ''TMG_CIF_USD'', fin, fin)]) ps)
   \<and> melt [(name, exports, imports)] =
       [(name, ''Exportaciones'', exports), (name, ''Importaciones'', imports)]
   \<and> screen (balanza_comercial trade_get [USA] 2023 fresh) =
       [St_plotly_chart (Grouped_bars ''Balanza Comercial (2023)''
          [(''Estados Unidos'', ''Exportaciones'', 50), (''Estados Unidos'', ''Importaciones'', 70)])]"
proof -
  have "calls (balanza_comercial get ps fin st) = calls (snd (collect_balanza get fin ps [] st))"
    by (cases ps) (simp_all add: balanza_comercial_def split_beta)
  then show ?thesis
    using collect_balanza_calls [of get fin ps "[]" st] trade_screen
    by (simp add: melt_def)
qed

text \<open>The claim as stated names the labels \<^verbatim>\<open>Exports\<close> and \<^verbatim>\<open>Imports\<close>: the chart
  of the scenario carries the Spanish labels instead.\<close>

theorem trade_balance_labels_counterexample:
  "concat (map tipo_labels (screen (balanza_comercial trade_get [USA] 2023 fresh))) =
     [''Exportaciones'', ''Importaciones'']
   \<and> concat (map tipo_labels (screen (balanza_comercial trade_get [USA] 2023 fresh))) \<noteq>
     [''Exports'', ''Imports'']"
  by (simp add: trade_screen)

end
